theory Spec2Isabelle
  imports Complex_Main "HOL-Library.Sublist"
begin

section \<open>Python values used by GMfold.py\<close>

text \<open>
  Exceptions are values: every function of the source that can raise returns
  \<open>error + 'a\<close>, with \<open>Inl\<close> the exception that leaves the function.
\<close>

datatype error = ValueError | TypeError | IndexError | KeyError | UnboundLocalError

text \<open>
  A Python float: a finite number (taken as a real, the binary rounding of each
  operation left out), the two infinities \<open>math.inf\<close> and \<open>-math.inf\<close>, and
  not-a-number, which \<open>inf - inf\<close> produces and every comparison but \<open>!=\<close>
  rejects.
\<close>

datatype pyfloat = Fin real | PInf | MInf | NaN

fun flt :: "pyfloat \<Rightarrow> pyfloat \<Rightarrow> bool" where
  "flt (Fin a) (Fin b) = (a < b)"
| "flt (Fin a) PInf = True"
| "flt MInf (Fin b) = True"
| "flt MInf PInf = True"
| "flt _ _ = False"

definition fgt :: "pyfloat \<Rightarrow> pyfloat \<Rightarrow> bool" where
  "fgt a b = flt b a"

definition feq :: "pyfloat \<Rightarrow> pyfloat \<Rightarrow> bool" where
  "feq a b = (a \<noteq> NaN \<and> b \<noteq> NaN \<and> a = b)"

definition fne :: "pyfloat \<Rightarrow> pyfloat \<Rightarrow> bool" where
  "fne a b = (\<not> feq a b)"

fun fneg :: "pyfloat \<Rightarrow> pyfloat" where
  "fneg (Fin a) = Fin (- a)"
| "fneg PInf = MInf"
| "fneg MInf = PInf"
| "fneg NaN = NaN"

fun fadd :: "pyfloat \<Rightarrow> pyfloat \<Rightarrow> pyfloat" where
  "fadd (Fin a) (Fin b) = Fin (a + b)"
| "fadd NaN _ = NaN"
| "fadd _ NaN = NaN"
| "fadd PInf MInf = NaN"
| "fadd MInf PInf = NaN"
| "fadd PInf _ = PInf"
| "fadd _ PInf = PInf"
| "fadd MInf _ = MInf"
| "fadd _ MInf = MInf"

definition fsub :: "pyfloat \<Rightarrow> pyfloat \<Rightarrow> pyfloat" where
  "fsub a b = fadd a (fneg b)"

text \<open>
  \<open>round(x, 1)\<close>: the nearest multiple of one tenth, a tie going to the even
  one; infinities and not-a-number are returned as they are.
\<close>

definition round1 :: "real \<Rightarrow> real" where
  "round1 x =
     (let y = x * 10; f = \<lfloor>y\<rfloor>; d = y - of_int f
      in (if d < 1 / 2 then of_int f
          else if 1 / 2 < d then of_int (f + 1)
          else if even f then of_int f else of_int (f + 1)) / 10)"

fun fround1 :: "pyfloat \<Rightarrow> pyfloat" where
  "fround1 (Fin a) = Fin (round1 a)"
| "fround1 x = x"

text \<open>
  Indexing a list with an integer: a negative index counts from the end, an
  index outside \<open>-n .. n-1\<close> raises IndexError.
\<close>

definition py_index :: "nat \<Rightarrow> int \<Rightarrow> nat option" where
  "py_index n i =
     (if 0 \<le> i \<and> i < int n then Some (nat i)
      else if - int n \<le> i \<and> i < 0 then Some (nat (int n + i))
      else None)"

definition py_get :: "'a list \<Rightarrow> int \<Rightarrow> error + 'a" where
  "py_get xs i =
     (case py_index (length xs) i of
        None \<Rightarrow> Inl IndexError
      | Some k \<Rightarrow> Inr (xs ! k))"

definition py_set :: "'a list \<Rightarrow> int \<Rightarrow> 'a \<Rightarrow> error + 'a list" where
  "py_set xs i v =
     (case py_index (length xs) i of
        None \<Rightarrow> Inl IndexError
      | Some k \<Rightarrow> Inr (xs[k := v]))"

text \<open>A slice \<open>xs[a:b]\<close>: both ends are clipped, nothing is raised.\<close>

definition py_clip :: "nat \<Rightarrow> int \<Rightarrow> nat" where
  "py_clip n a = (if a < 0 then nat (max 0 (int n + a)) else min n (nat a))"

definition py_slice :: "'a list \<Rightarrow> int \<Rightarrow> int \<Rightarrow> 'a list" where
  "py_slice xs a b =
     (let lo = py_clip (length xs) a; hi = py_clip (length xs) b
      in take (hi - lo) (drop lo xs))"

text \<open>\<open>str(n)\<close> for an integer, in decimal.\<close>

fun str_nat :: "nat \<Rightarrow> string" where
  "str_nat n =
     (if n < 10 then [char_of (48 + n)]
      else str_nat (n div 10) @ [char_of (48 + n mod 10)])"

declare str_nat.simps [simp del]

definition str_int :: "int \<Rightarrow> string" where
  "str_int i = (if i < 0 then CHR ''-'' # str_nat (nat (- i)) else str_nat (nat i))"

text \<open>\<open>seq.upper()\<close> on the letters \<open>a .. z\<close>; other characters are kept.\<close>

definition upper_char :: "char \<Rightarrow> char" where
  "upper_char c =
     (case map_of (zip ''abcdefghijklmnopqrstuvwxyz'' ''ABCDEFGHIJKLMNOPQRSTUVWXYZ'') c of
        None \<Rightarrow> c
      | Some u \<Rightarrow> u)"

definition upper :: "string \<Rightarrow> string" where
  "upper s = map upper_char s"

section \<open>Struct and the energy cache\<close>

type_synonym pair = "int \<times> int"

text \<open>
  Modelled from the spec: the class \<open>Struct\<close> of gm_energy_functions, which
  GMfold.py imports and the repository's files here do not hold. The spec's
  data model gives it an energy (a real or one of two sentinels), a
  descriptive label and a list of enclosed base-pair references;
  \<open>Struct(x)\<close> has the empty label and no reference, \<open>Struct(x, d)\<close> no
  reference.
\<close>

record struct =
  e :: pyfloat
  desc :: string
  ij :: "pair list"

definition Struct :: "pyfloat \<Rightarrow> string \<Rightarrow> pair list \<Rightarrow> struct" where
  "Struct x d ps = \<lparr>e = x, desc = d, ij = ps\<rparr>"

definition with_ij :: "struct \<Rightarrow> pair list \<Rightarrow> struct" where
  "with_ij s ps = Struct (e s) (desc s) ps"

definition STRUCT_DEFAULT :: struct where
  "STRUCT_DEFAULT = Struct MInf [] []"

definition STRUCT_NULL :: struct where
  "STRUCT_NULL = Struct PInf [] []"

text \<open>\<open>Structs = List[List[Struct]]\<close>: the energy cache, one row per \<open>i\<close>.\<close>

type_synonym structs = "struct list list"

definition cache_get :: "structs \<Rightarrow> int \<Rightarrow> int \<Rightarrow> error + struct" where
  "cache_get c i j =
     (case py_get c i of
        Inl err \<Rightarrow> Inl err
      | Inr row \<Rightarrow> py_get row j)"

definition cache_set :: "structs \<Rightarrow> int \<Rightarrow> int \<Rightarrow> struct \<Rightarrow> error + structs" where
  "cache_set c i j v =
     (case py_index (length c) i of
        None \<Rightarrow> Inl IndexError
      | Some k \<Rightarrow>
          (case py_set (c ! k) j v of
             Inl err \<Rightarrow> Inl err
           | Inr row \<Rightarrow> Inr (c[k := row])))"

section \<open>The candidate-resolution minimum\<close>

text \<open>
  \<open>_min_struct(*structs)\<close>: the loop starts from \<open>STRUCT_NULL\<close> and replaces
  the running struct by an argument whose energy is not \<open>-inf\<close> and is
  strictly below the running one's.
\<close>

fun min_struct_loop :: "struct \<Rightarrow> struct list \<Rightarrow> struct" where
  "min_struct_loop s [] = s"
| "min_struct_loop s (x # xs) =
     min_struct_loop (if fne (e x) MInf \<and> flt (e x) (e s) then x else s) xs"

definition u_min_struct :: "struct list \<Rightarrow> struct" where
  "u_min_struct xs = min_struct_loop STRUCT_NULL xs"

section \<open>The imported modules\<close>

text \<open>
  GMfold.py imports its energy tables (\<open>dna\<close>, \<open>rna\<close>), its energy
  functions and the combination generator (\<open>gm_energy_functions\<close>) from
  modules that the repository's files here do not hold. They are parameters:
  \<open>energies\<close> is the table object (\<open>emap\<close>) with the two fields the source
  reads, \<open>env\<close> the functions with the arguments the source passes them.
  \<open>struct_eq\<close> and \<open>struct_bool\<close> are \<open>Struct.__eq__\<close> and the truth value
  of a \<open>Struct\<close>; a function that may return \<open>None\<close> returns an option.
\<close>

record energies =
  COMPLEMENT :: "char \<rightharpoonup> char"
  NN :: "string set"

record env =
  DNA_ENERGIES :: energies
  RNA_ENERGIES :: energies
  u_pair :: "string \<Rightarrow> int \<Rightarrow> int \<Rightarrow> int \<Rightarrow> int \<Rightarrow> string"
  u_hairpin :: "string \<Rightarrow> int \<Rightarrow> int \<Rightarrow> pyfloat \<Rightarrow> energies \<Rightarrow> pyfloat"
  u_stack :: "string \<Rightarrow> int \<Rightarrow> int \<Rightarrow> int \<Rightarrow> int \<Rightarrow> pyfloat \<Rightarrow> energies \<Rightarrow> pyfloat"
  u_bulge :: "string \<Rightarrow> int \<Rightarrow> int \<Rightarrow> int \<Rightarrow> int \<Rightarrow> pyfloat \<Rightarrow> energies \<Rightarrow> pyfloat"
  u_internal_loop :: "string \<Rightarrow> int \<Rightarrow> int \<Rightarrow> int \<Rightarrow> int \<Rightarrow> pyfloat \<Rightarrow> energies \<Rightarrow> pyfloat"
  gm_multi_branch ::
    "string \<Rightarrow> int \<Rightarrow> int \<Rightarrow> pyfloat \<Rightarrow> structs \<Rightarrow> energies \<Rightarrow> pair list \<Rightarrow> struct option"
  open_ending_branch :: "structs \<Rightarrow> pair list \<Rightarrow> struct option"
  all_combinations :: "pair list \<Rightarrow> int option \<Rightarrow> int \<Rightarrow> pair list list"
  struct_eq :: "struct \<Rightarrow> struct \<Rightarrow> bool"
  struct_bool :: "struct \<Rightarrow> bool"

section \<open>The per-pair resolver\<close>

text \<open>\<open>emap.COMPLEMENT[seq[a]] != seq[b]\<close>, with the errors of its three lookups.\<close>

definition compl_ne :: "energies \<Rightarrow> string \<Rightarrow> int \<Rightarrow> int \<Rightarrow> error + bool" where
  "compl_ne emap seq a b =
     (case py_get seq a of
        Inl err \<Rightarrow> Inl err
      | Inr x \<Rightarrow>
          (case COMPLEMENT emap x of
             None \<Rightarrow> Inl KeyError
           | Some c \<Rightarrow>
               (case py_get seq b of
                  Inl err \<Rightarrow> Inl err
                | Inr y \<Rightarrow> Inr (c \<noteq> y))))"

text \<open>
  The classification of one nested candidate \<open>(i1, j1)\<close> of \<open>S[key]\<close>: the
  loop energy and the label, or \<open>None\<close> where the source says \<open>continue\<close>.
\<close>

definition e2_candidate ::
  "env \<Rightarrow> string \<Rightarrow> int \<Rightarrow> int \<Rightarrow> pyfloat \<Rightarrow> energies \<Rightarrow> pair \<Rightarrow> (pyfloat \<times> string) option" where
  "e2_candidate env seq i j temp emap bp =
     (let i1 = fst bp; j1 = snd bp; n = int (length seq);
          pair = u_pair env seq i i1 j j1;
          pair_left = u_pair env seq i (i + 1) j (j - 1);
          pair_right = u_pair env seq (i1 - 1) i1 (j1 + 1) j1;
          pair_inner = (pair_left \<in> NN emap \<or> pair_right \<in> NN emap);
          stack = (i1 = i + 1 \<and> j1 = j - 1);
          bulge_left = (i1 > i + 1);
          bulge_right = (j1 < j - 1)
      in if stack then
           Some (u_stack env seq i i1 j j1 temp emap,
                 if (i > 0 \<and> j = n - 1) \<or> (i = 0 \<and> j < n - 1)
                 then ''STACK_DE:'' @ pair else ''STACK:'' @ pair)
         else if bulge_left \<and> bulge_right \<and> \<not> pair_inner then
           Some (u_internal_loop env seq i i1 j j1 temp emap,
                 if i1 - i = 2 \<and> j - j1 = 2
                 then ''STACK:'' @ py_slice seq i (i1 + 1) @ ''/'' @ rev (py_slice seq j1 (j + 1))
                 else ''INTERIOR_LOOP:'' @ str_int (i1 - i) @ ''/'' @ str_int (j - j1))
         else if bulge_left \<and> \<not> bulge_right then
           Some (u_bulge env seq i i1 j j1 temp emap, ''BULGE:'' @ str_int (i1 - i))
         else if \<not> bulge_left \<and> bulge_right then
           Some (u_bulge env seq i i1 j j1 temp emap, ''BULGE:'' @ str_int (j - j1))
         else None)"

text \<open>The loop over \<open>S[key]\<close> that keeps the best single-child candidate \<open>e2\<close>.\<close>

fun e2_loop ::
  "env \<Rightarrow> string \<Rightarrow> int \<Rightarrow> int \<Rightarrow> pyfloat \<Rightarrow> structs \<Rightarrow> energies \<Rightarrow> pair list \<Rightarrow> struct
     \<Rightarrow> error + struct" where
  "e2_loop env seq i j temp c emap [] e2 = Inr e2"
| "e2_loop env seq i j temp c emap (bp # bps) e2 =
     (case compl_ne emap seq (fst bp) (snd bp) of
        Inl err \<Rightarrow> Inl err
      | Inr True \<Rightarrow> e2_loop env seq i j temp c emap bps e2
      | Inr False \<Rightarrow>
          (case e2_candidate env seq i j temp emap bp of
             None \<Rightarrow> e2_loop env seq i j temp c emap bps e2
           | Some (x, ty) \<Rightarrow>
               (case cache_get c (fst bp) (snd bp) of
                  Inl err \<Rightarrow> Inl err
                | Inr s \<Rightarrow>
                    (let e2_test = fadd x (e s)
                     in e2_loop env seq i j temp c emap bps
                          (if fne e2_test MInf \<and> flt e2_test (e e2)
                           then Struct e2_test ty [bp] else e2)))))"

text \<open>The loop over the branch combinations that keeps the best multi-branch \<open>e3\<close>.\<close>

fun e3_loop ::
  "env \<Rightarrow> string \<Rightarrow> int \<Rightarrow> int \<Rightarrow> pyfloat \<Rightarrow> structs \<Rightarrow> energies \<Rightarrow> pair list list \<Rightarrow> struct
     \<Rightarrow> struct" where
  "e3_loop env seq i j temp c emap [] e3 = e3"
| "e3_loop env seq i j temp c emap (combo # combos) e3 =
     e3_loop env seq i j temp c emap combos
       (case gm_multi_branch env seq i j temp c emap combo of
          None \<Rightarrow> e3
        | Some t \<Rightarrow> if struct_bool env t \<and> flt (e t) (e e3) then t else e3)"

text \<open>
  What \<open>_e\<close> hands back: the first two \<open>return\<close> statements give a bare
  \<open>Struct\<close>, the other two a tuple of the \<open>Struct\<close> and the set.
\<close>

datatype ret = RStruct struct | RTuple struct "pair set"

text \<open>
  \<open>_e\<close> writes into \<open>e_cache\<close> and \<open>non_branches\<close> in place; the model returns
  the value handed back, the cache and the set as they are afterwards. \<open>S\<close>
  is keyed by the pair (the source formats the pair into a string key); the
  list made of a Python set is taken in the order of first occurrence. The
  local variable \<open>e\<close> of the source is \<open>best\<close> here.
\<close>

definition u_e ::
  "env \<Rightarrow> string \<Rightarrow> int \<Rightarrow> int \<Rightarrow> pyfloat \<Rightarrow> structs \<Rightarrow> energies \<Rightarrow> (pair \<rightharpoonup> pair list)
     \<Rightarrow> pair set \<Rightarrow> int \<Rightarrow> error + (ret \<times> structs \<times> pair set)" where
  "u_e env seq i j temp e_cache emap S non_branches n_branches =
     (case cache_get e_cache i j of
        Inl err \<Rightarrow> Inl err
      | Inr cur \<Rightarrow>
          if \<not> struct_eq env cur STRUCT_DEFAULT then Inr (RStruct cur, e_cache, non_branches)
          else
            (case (if i \<noteq> 0 \<and> j < int (length seq) - 1
                   then compl_ne emap seq (i - 1) (j + 1) else Inr True) of
               Inl err \<Rightarrow> Inl err
             | Inr isolated_outer \<Rightarrow>
                 (case compl_ne emap seq (i + 1) (j - 1) of
                    Inl err \<Rightarrow> Inl err
                  | Inr isolated_inner \<Rightarrow>
                      if isolated_outer \<and> isolated_inner then
                        (case cache_set e_cache i j (Struct (Fin 5000) [] []) of
                           Inl err \<Rightarrow> Inl err
                         | Inr c' \<Rightarrow> Inr (RStruct (Struct (Fin 5000) [] []), c', non_branches))
                      else
                        (let pair = u_pair env seq i (i + 1) j (j - 1);
                             e1 = Struct (u_hairpin env seq i j temp emap) (''HAIRPIN:'' @ pair) []
                         in if j - i = 4 then
                              (case cache_set e_cache i j e1 of
                                 Inl err \<Rightarrow> Inl err
                               | Inr c' \<Rightarrow> Inr (RTuple e1 non_branches, c', non_branches))
                            else
                              (case S (i, j) of
                                 None \<Rightarrow> Inl KeyError
                               | Some skey \<Rightarrow>
                                   (case e2_loop env seq i j temp e_cache emap skey
                                           (Struct PInf [] []) of
                                      Inl err \<Rightarrow> Inl err
                                    | Inr e2 \<Rightarrow>
                                        (let branches =
                                               filter (\<lambda>p. p \<notin> non_branches) (remdups skey);
                                             e3 =
                                               (if (\<not> isolated_outer \<or> i = 0
                                                     \<or> j = int (length seq) - 1)
                                                   \<and> 2 \<le> length branches
                                                then e3_loop env seq i j temp e_cache emap
                                                       (all_combinations env branches (Some 2)
                                                          n_branches)
                                                       STRUCT_NULL
                                                else STRUCT_NULL);
                                             best = u_min_struct [e1, e2, e3];
                                             nb' =
                                               (if fgt (e best) (Fin 0) \<or> struct_eq env best e3
                                                   \<or> struct_eq env best e1
                                                then insert (i, j) non_branches
                                                else non_branches)
                                         in (case cache_set e_cache i j best of
                                               Inl err \<Rightarrow> Inl err
                                             | Inr c' \<Rightarrow> Inr (RTuple best nb', c', nb')))))))))"

section \<open>Filling the cache\<close>

text \<open>
  The two nested loops of \<open>_cache\<close> visit \<open>D\<close>'s keys in ascending order and,
  under each key, the distinct pairs of \<open>D[d]\<close>. \<open>D\<close> is the list of the
  dictionary's items, its keys already integers; \<open>plan\<close> is the sequence of
  pairs the loops visit.
\<close>

definition plan :: "(int \<times> pair list) list \<Rightarrow> pair list" where
  "plan D = concat (map (\<lambda>d. remdups (snd d)) (sort_key fst D))"

text \<open>
  The state of the loop without a stem: \<open>e_cache\<close>, \<open>non_branches\<close>,
  \<open>min_struct\<close> (\<open>None\<close> at first) and \<open>min_ene\<close>. Unpacking the bare
  \<open>Struct\<close> that \<open>_e\<close> may hand back into \<open>e, non_branches\<close> raises TypeError.
\<close>

type_synonym fill_state = "structs \<times> pair set \<times> pair option \<times> pyfloat"

fun fill_loop ::
  "env \<Rightarrow> string \<Rightarrow> pyfloat \<Rightarrow> energies \<Rightarrow> (pair \<rightharpoonup> pair list) \<Rightarrow> int \<Rightarrow> pair list
     \<Rightarrow> fill_state \<Rightarrow> error + fill_state" where
  "fill_loop env seq temp emap S n_branches [] st = Inr st"
| "fill_loop env seq temp emap S n_branches (bp # bps) (e_cache, non_branches, min_struct, min_ene) =
     (case u_e env seq (fst bp) (snd bp) temp e_cache emap S non_branches n_branches of
        Inl err \<Rightarrow> Inl err
      | Inr (RStruct s, c', nb') \<Rightarrow> Inl TypeError
      | Inr (RTuple x nbx, c', nb') \<Rightarrow>
          fill_loop env seq temp emap S n_branches bps
            (if flt (e x) min_ene then (c', nbx, Some bp, e x)
             else (c', nbx, min_struct, min_ene)))"

text \<open>\<open>fixed_bp = [(k, n-1-k) for k in range(l_fix-1)]\<close>\<close>

definition fixed_bp :: "nat \<Rightarrow> int \<Rightarrow> pair list" where
  "fixed_bp n l_fix = map (\<lambda>k. (int k, int n - 1 - int k)) [0..<nat (l_fix - 1)]"

text \<open>
  The forced write of one stem pair: \<open>None\<close> where the source says
  \<open>continue\<close>, the cache after the write otherwise.
\<close>

definition fixed_write ::
  "env \<Rightarrow> string \<Rightarrow> pyfloat \<Rightarrow> energies \<Rightarrow> structs \<Rightarrow> pair \<Rightarrow> error + structs option" where
  "fixed_write env seq temp emap e_cache bp =
     (let i = fst bp; j = snd bp; i1 = i + 1; j1 = j - 1; n = int (length seq)
      in case compl_ne emap seq i1 j1 of
           Inl err \<Rightarrow> Inl err
         | Inr True \<Rightarrow> Inr None
         | Inr False \<Rightarrow>
             (let pair = u_pair env seq i i1 j j1;
                  e2_test_type =
                    (if (i > 0 \<and> j = n - 1) \<or> (i = 0 \<and> j < n - 1)
                     then ''STACK_DE:'' @ pair else ''STACK:'' @ pair)
              in case cache_get e_cache i1 j1 of
                   Inl err \<Rightarrow> Inl err
                 | Inr s \<Rightarrow>
                     (let e2_test = fadd (u_stack env seq i i1 j j1 temp emap) (e s);
                          e2 = (if fne e2_test MInf \<and> flt e2_test PInf
                                then Struct e2_test e2_test_type [(i1, j1)]
                                else Struct PInf [] [])
                      in case cache_set e_cache i j e2 of
                           Inl err \<Rightarrow> Inl err
                         | Inr c' \<Rightarrow> Inr (Some c'))))"

text \<open>
  The loop with a stem keeps one more variable: the local \<open>e\<close> of \<open>_cache\<close>
  (\<open>e_var\<close> here), which only the call of \<open>_e\<close> assigns, so that reading it
  after a forced write gives the value of an earlier pair, or raises
  UnboundLocalError when there was none.
\<close>

type_synonym fix_state = "structs \<times> pair set \<times> pair option \<times> pyfloat \<times> struct option"

fun fill_loop_fix ::
  "env \<Rightarrow> string \<Rightarrow> pyfloat \<Rightarrow> energies \<Rightarrow> (pair \<rightharpoonup> pair list) \<Rightarrow> int \<Rightarrow> int \<Rightarrow> pair list
     \<Rightarrow> fix_state \<Rightarrow> error + fix_state" where
  "fill_loop_fix env seq temp emap S n_branches l_fix [] st = Inr st"
| "fill_loop_fix env seq temp emap S n_branches l_fix (bp # bps)
       (e_cache, non_branches, min_struct, min_ene, e_var) =
     (if bp \<in> set (fixed_bp (length seq) l_fix) then
        (case fixed_write env seq temp emap e_cache bp of
           Inl err \<Rightarrow> Inl err
         | Inr None \<Rightarrow>
             fill_loop_fix env seq temp emap S n_branches l_fix bps
               (e_cache, non_branches, min_struct, min_ene, e_var)
         | Inr (Some c') \<Rightarrow>
             (case e_var of
                None \<Rightarrow> Inl UnboundLocalError
              | Some x \<Rightarrow>
                  fill_loop_fix env seq temp emap S n_branches l_fix bps
                    (if flt (e x) min_ene then (c', non_branches, Some bp, e x, e_var)
                     else (c', non_branches, min_struct, min_ene, e_var))))
      else
        (case u_e env seq (fst bp) (snd bp) temp e_cache emap S non_branches n_branches of
           Inl err \<Rightarrow> Inl err
         | Inr (RStruct s, c', nb') \<Rightarrow> Inl TypeError
         | Inr (RTuple x nbx, c', nb') \<Rightarrow>
             fill_loop_fix env seq temp emap S n_branches l_fix bps
               (if flt (e x) min_ene then (c', nbx, Some bp, e x, Some x)
                else (c', nbx, min_struct, min_ene, Some x))))"

text \<open>
  \<open>_cache\<close>. The statement \<open>raise(ValueError, f'...')\<close> of the source raises
  a tuple, which Python 3 answers with TypeError (exceptions must derive from
  BaseException).
\<close>

definition u_cache ::
  "env \<Rightarrow> string \<Rightarrow> pyfloat \<Rightarrow> (pair \<rightharpoonup> pair list) \<Rightarrow> (int \<times> pair list) list \<Rightarrow> int \<Rightarrow> int
     \<Rightarrow> string \<Rightarrow> error + (structs \<times> pair option \<times> pyfloat)" where
  "u_cache env seq0 temp0 S D l_fix n_branches mode =
     (let seq = upper seq0; temp = fadd temp0 (Fin (27315 / 100))
      in if mode \<noteq> ''dna'' \<and> mode \<noteq> ''rna'' then Inl TypeError
         else
           (let emap = (if mode = ''dna'' then DNA_ENERGIES env else RNA_ENERGIES env);
                n = length seq;
                e_cache = replicate n (replicate n STRUCT_DEFAULT)
            in case (if l_fix = 0
                     then fill_loop env seq temp emap S n_branches (plan D)
                            (e_cache, {}, None, PInf)
                     else Inr (e_cache, {}, None, PInf)) of
                 Inl err \<Rightarrow> Inl err
               | Inr (c1, nb1, ms1, me1) \<Rightarrow>
                   if l_fix > 0 then
                     (case fill_loop_fix env seq temp emap S n_branches l_fix (plan D)
                             (c1, nb1, ms1, me1, None) of
                        Inl err \<Rightarrow> Inl err
                      | Inr (c2, nb2, ms2, me2, ev2) \<Rightarrow> Inr (c2, ms2, me2))
                   else Inr (c1, ms1, me1)))"

section \<open>Traceback\<close>

text \<open>\<open>_trackback_energy\<close>: each energy less the next one's, the last less \<open>0.0\<close>.\<close>

fun u_trackback_energy :: "struct list \<Rightarrow> struct list" where
  "u_trackback_energy [] = []"
| "u_trackback_energy [s] = [Struct (fround1 (fsub (e s) (Fin 0))) (desc s) (ij s)]"
| "u_trackback_energy (s # t # ss) =
     Struct (fround1 (fsub (e s) (e t))) (desc s) (ij s) # u_trackback_energy (t # ss)"

text \<open>
  The preprocessing of a stem longer than one pair: for \<open>k = 1 .. l_fix - 1\<close>
  the first child reference of the cell \<open>(k-1, len-k)\<close> is assigned in place.
  The structs of the cells are separate objects but for the two sentinels,
  whose reference list is empty, so that the assignment raises and changes
  nothing.
\<close>

fun stem_rewrite :: "structs \<Rightarrow> int list \<Rightarrow> error + structs" where
  "stem_rewrite c [] = Inr c"
| "stem_rewrite c (k # ks) =
     (case cache_get c (k - 1) (int (length c) - k) of
        Inl err \<Rightarrow> Inl err
      | Inr s \<Rightarrow>
          (case py_set (ij s) 0 (k, int (length c) - 1 - k) of
             Inl err \<Rightarrow> Inl err
           | Inr ps \<Rightarrow>
               (case cache_set c (k - 1) (int (length c) - k) (s\<lparr>ij := ps\<rparr>) of
                  Inl err \<Rightarrow> Inl err
                | Inr c' \<Rightarrow> stem_rewrite c' ks)))"

text \<open>
  The loop over the children of a multi-branch, given each child's own
  traceback: \<open>e_sum\<close> and \<open>branches\<close> grow when the child's list is not empty
  and its first struct has a reference.
\<close>

fun branch_loop ::
  "structs \<Rightarrow> (pair \<times> struct list) list \<Rightarrow> pyfloat \<times> struct list \<Rightarrow> error + pyfloat \<times> struct list" where
  "branch_loop c [] acc = Inr acc"
| "branch_loop c ((p, tb) # rest) (e_sum, branches) =
     (if tb \<noteq> [] \<and> ij (hd tb) \<noteq> [] then
        (case cache_get c (fst p) (snd p) of
           Inl err \<Rightarrow> Inl err
         | Inr s \<Rightarrow> branch_loop c rest (fadd e_sum (e s), branches @ tb))
      else branch_loop c rest (e_sum, branches))"

text \<open>
  The results of the children's tracebacks, in order: the first child that
  does not return (\<open>None\<close>) or raises decides the outcome.
\<close>

fun sequence_tb ::
  "(pair \<times> (error + struct list) option) list \<Rightarrow> (error + (pair \<times> struct list) list) option" where
  "sequence_tb [] = Some (Inr [])"
| "sequence_tb ((p, None) # rest) = None"
| "sequence_tb ((p, Some (Inl err)) # rest) = Some (Inl err)"
| "sequence_tb ((p, Some (Inr tb)) # rest) =
     (case sequence_tb rest of
        None \<Rightarrow> None
      | Some (Inl err) \<Rightarrow> Some (Inl err)
      | Some (Inr tbs) \<Rightarrow> Some (Inr ((p, tb) # tbs)))"

text \<open>
  The \<open>while True\<close> loop of \<open>gm_traceback\<close> with its recursive calls for the
  children of a multi-branch (made with \<open>l_fix = 0\<close>, so without
  preprocessing). The cache may hold a cycle of references, on which the
  source never returns: the loop takes fuel, one unit per cell visited on a
  path, and \<open>None\<close> says that the fuel ran out.
\<close>

fun tb_loop :: "nat \<Rightarrow> structs \<Rightarrow> int \<Rightarrow> int \<Rightarrow> struct list \<Rightarrow> (error + struct list) option" where
  "tb_loop 0 c i j structs = None"
| "tb_loop (Suc fuel) c i j structs =
     (case cache_get c i j of
        Inl err \<Rightarrow> Some (Inl err)
      | Inr s \<Rightarrow>
          (let structs1 = structs @ [with_ij s [(i, j)]]
           in if ij s = [] then Some (Inr (u_trackback_energy structs1))
              else if length (ij s) = 1 then tb_loop fuel c (fst (hd (ij s))) (snd (hd (ij s))) structs1
              else
                (case sequence_tb (map (\<lambda>p. (p, tb_loop fuel c (fst p) (snd p) [])) (ij s)) of
                   None \<Rightarrow> None
                 | Some (Inl err) \<Rightarrow> Some (Inl err)
                 | Some (Inr tbs) \<Rightarrow>
                     (case branch_loop c tbs (Fin 0, []) of
                        Inl err \<Rightarrow> Some (Inl err)
                      | Inr (e_sum, branches) \<Rightarrow>
                          (let structs2 = u_trackback_energy structs1;
                               last_s = last structs2
                           in Some (Inr (butlast structs2
                                         @ [Struct (fround1 (fsub (e last_s) e_sum))
                                              (desc last_s) (ij last_s)]
                                         @ branches)))))))"

definition gm_traceback ::
  "nat \<Rightarrow> int \<Rightarrow> int \<Rightarrow> structs \<Rightarrow> int \<Rightarrow> (error + struct list) option" where
  "gm_traceback fuel i j e_cache l_fix =
     (if l_fix > 1 then
        (case stem_rewrite e_cache (map int [1..<nat l_fix]) of
           Inl err \<Rightarrow> Some (Inl err)
         | Inr c' \<Rightarrow> tb_loop fuel c' 0 (int (length e_cache) - 1) [])
      else if l_fix = 1 then tb_loop fuel e_cache 0 (int (length e_cache) - 1) []
      else tb_loop fuel e_cache i j [])"

section \<open>The fold and its dot-bracket encoder\<close>

text \<open>
  The branches of the exterior resolver: the distinct pairs of \<open>bps\<close> whose
  cached energy is negative.
\<close>

fun neg_branches :: "structs \<Rightarrow> pair list \<Rightarrow> error + pair list" where
  "neg_branches c [] = Inr []"
| "neg_branches c (bp # rest) =
     (case cache_get c (fst bp) (snd bp) of
        Inl err \<Rightarrow> Inl err
      | Inr s \<Rightarrow>
          (case neg_branches c rest of
             Inl err \<Rightarrow> Inl err
           | Inr bs \<Rightarrow> Inr (if flt (e s) (Fin 0) then bp # bs else bs)))"

text \<open>
  The loop over the open-ended combinations. Its state is \<open>e_cache\<close> and
  \<open>min_struct\<close>; subscripting a \<open>min_struct\<close> that is still \<open>None\<close> raises
  TypeError.
\<close>

fun ext_loop ::
  "env \<Rightarrow> nat \<Rightarrow> pair list list \<Rightarrow> structs \<times> pair option \<Rightarrow> error + structs \<times> pair option" where
  "ext_loop env n [] st = Inr st"
| "ext_loop env n (combo # combos) (e_cache, min_struct) =
     (case open_ending_branch env e_cache combo of
        None \<Rightarrow> ext_loop env n combos (e_cache, min_struct)
      | Some e3_test \<Rightarrow>
          if \<not> struct_bool env e3_test then ext_loop env n combos (e_cache, min_struct)
          else
            (case min_struct of
               None \<Rightarrow> Inl TypeError
             | Some m \<Rightarrow>
                 (case cache_get e_cache (fst m) (snd m) of
                    Inl err \<Rightarrow> Inl err
                  | Inr cur \<Rightarrow>
                      if flt (e e3_test) (e cur) then
                        (case cache_set e_cache 0 (int n - 1) e3_test of
                           Inl err \<Rightarrow> Inl err
                         | Inr c' \<Rightarrow> ext_loop env n combos (c', Some (0, int n - 1)))
                      else ext_loop env n combos (e_cache, min_struct))))"

text \<open>
  The exterior multi-branch resolver: the statements of \<open>gmfold\<close> between the
  fill and the traceback.
\<close>

definition exterior ::
  "env \<Rightarrow> nat \<Rightarrow> pair list \<Rightarrow> int \<Rightarrow> int \<Rightarrow> structs \<Rightarrow> pair option \<Rightarrow> pyfloat
     \<Rightarrow> error + structs \<times> pair option" where
  "exterior env n bps l_fix n_branches e_cache min_struct min_ene =
     (case cache_get e_cache 0 (int n - 1) of
        Inl err \<Rightarrow> Inl err
      | Inr w \<Rightarrow>
          if (fgt (e w) min_ene \<or> struct_eq env w STRUCT_DEFAULT) \<and> l_fix = 0 then
            (case neg_branches e_cache (remdups bps) of
               Inl err \<Rightarrow> Inl err
             | Inr branches \<Rightarrow>
                 ext_loop env n (all_combinations env branches None n_branches)
                   (e_cache, min_struct))
          else Inr (e_cache, min_struct))"

text \<open>
  \<open>gmfold\<close>. The graph matching (\<open>Aptamer_match\<close>) is not among the files:
  what it gives, \<open>S\<close>, \<open>D\<close> and \<open>bps\<close>, are arguments.
\<close>

definition gmfold ::
  "nat \<Rightarrow> env \<Rightarrow> string \<Rightarrow> pyfloat \<Rightarrow> (pair \<rightharpoonup> pair list) \<Rightarrow> (int \<times> pair list) list \<Rightarrow> pair list
     \<Rightarrow> int \<Rightarrow> int \<Rightarrow> string \<Rightarrow> (error + struct list) option" where
  "gmfold fuel env seq temp S D bps l_fix n_branches mode =
     (case u_cache env seq temp S D l_fix n_branches mode of
        Inl err \<Rightarrow> Some (Inl err)
      | Inr (e_cache, min_struct, min_ene) \<Rightarrow>
          (case exterior env (length seq) bps l_fix n_branches e_cache min_struct min_ene of
             Inl err \<Rightarrow> Some (Inl err)
           | Inr (c', ms') \<Rightarrow>
               (case ms' of
                  None \<Rightarrow> Some (Inl TypeError)
                | Some m \<Rightarrow> gm_traceback fuel (fst m) (snd m) c' l_fix)))"

text \<open>\<open>gm_dot_bracket\<close>: the loop that marks the single-pair structs.\<close>

fun mark_loop :: "string \<Rightarrow> struct list \<Rightarrow> error + string" where
  "mark_loop result [] = Inr result"
| "mark_loop result (s # ss) =
     (if length (ij s) = 1 then
        (case py_set result (fst (hd (ij s))) CHR ''('' of
           Inl err \<Rightarrow> Inl err
         | Inr r1 \<Rightarrow>
             (case py_set r1 (snd (hd (ij s))) CHR '')'' of
                Inl err \<Rightarrow> Inl err
              | Inr r2 \<Rightarrow> mark_loop r2 ss))
      else mark_loop result ss)"

definition gm_dot_bracket :: "string \<Rightarrow> struct list \<Rightarrow> error + string" where
  "gm_dot_bracket seq structs =
     (let result = replicate (length seq) CHR ''.''
      in case py_get structs 0 of
           Inl err \<Rightarrow> Inl err
         | Inr s0 \<Rightarrow>
             mark_loop result
               (if take 24 (desc s0) = ''OPEN_ENDING_MULTI_BRANCH'' then tl structs else structs))"

section \<open>Labels\<close>


section \<open>A sample instance of the imported modules\<close>

text \<open>
  The concrete inputs of the closed theorems below need values for the
  parameters: the Watson-Crick complement table, constant loop energies, no
  multi-branch candidate, and a \<open>Struct\<close> equality on energy and references.
\<close>

definition sample_energies :: energies where
  "sample_energies =
     \<lparr>COMPLEMENT = [CHR ''A'' \<mapsto> CHR ''T'', CHR ''T'' \<mapsto> CHR ''A'',
                    CHR ''G'' \<mapsto> CHR ''C'', CHR ''C'' \<mapsto> CHR ''G''],
      NN = {}\<rparr>"

definition sample_env :: env where
  "sample_env =
     \<lparr>DNA_ENERGIES = sample_energies,
      RNA_ENERGIES = sample_energies,
      u_pair = (\<lambda>seq i i1 j j1. []),
      u_hairpin = (\<lambda>seq i j temp emap. Fin 3),
      u_stack = (\<lambda>seq i i1 j j1 temp emap. Fin (- 2)),
      u_bulge = (\<lambda>seq i i1 j j1 temp emap. Fin 1),
      u_internal_loop = (\<lambda>seq i i1 j j1 temp emap. Fin 2),
      gm_multi_branch = (\<lambda>seq i j temp c emap combo. None),
      open_ending_branch = (\<lambda>c combo. None),
      all_combinations = (\<lambda>branches r1 r2. []),
      struct_eq = (\<lambda>a b. feq (e a) (e b) \<and> ij a = ij b),
      struct_bool = (\<lambda>s. e s \<noteq> PInf \<and> e s \<noteq> MInf)\<rparr>"

text \<open>
  The same instance with an exterior candidate: every combination offered is
  the whole list of branches, and its open-ended energy is \<open>-5\<close>.
\<close>

definition sample_env_open :: env where
  "sample_env_open =
     sample_env\<lparr>open_ending_branch :=
                  (\<lambda>c combo. Some (Struct (Fin (- 5)) ''OPEN_ENDING_MULTI_BRANCH'' combo)),
                all_combinations := (\<lambda>branches r1 r2. [branches])\<rparr>"

section \<open>Sums of energies\<close>

text \<open>
  The finite energies and their sum over a list of structs, to state what the
  marginal energies of a traceback add up to; \<open>cell_e\<close> is the energy
  \<open>e_cache[i1][j1].e\<close> of a child's cell.
\<close>

fun is_fin :: "pyfloat \<Rightarrow> bool" where
  "is_fin (Fin a) = True"
| "is_fin _ = False"

fun fin_val :: "pyfloat \<Rightarrow> real" where
  "fin_val (Fin a) = a"
| "fin_val _ = 0"

definition esum :: "struct list \<Rightarrow> real" where
  "esum xs = sum_list (map (\<lambda>s. fin_val (e s)) xs)"



section \<open>The forced stem\<close>



text \<open>Two caches of the same height that read alike at every cell but \<open>bp\<close>.\<close>

definition frame :: "structs \<Rightarrow> structs \<Rightarrow> pair \<Rightarrow> bool" where
  "frame c c1 bp =
     (length c1 = length c
      \<and> (\<forall>a b. 0 \<le> a \<and> 0 \<le> b \<and> (a, b) \<noteq> bp \<longrightarrow> cache_get c1 a b = cache_get c a b))"


section \<open>Comparisons of floats\<close>

lemma fne_MInf [simp]: "fne a MInf = (a \<noteq> MInf)"
  by (cases a) (simp_all add: fne_def feq_def)

lemma flt_not_NaN: "flt a b \<Longrightarrow> a \<noteq> NaN \<and> b \<noteq> NaN"
  by (cases a; cases b) simp_all

lemma flt_trans: "flt a b \<Longrightarrow> flt b c \<Longrightarrow> flt a c"
  by (cases a; cases b; cases c) simp_all

lemma flt_total: "a \<noteq> NaN \<Longrightarrow> b \<noteq> NaN \<Longrightarrow> \<not> flt a b \<Longrightarrow> \<not> flt b c \<Longrightarrow> \<not> flt a c"
  by (cases a; cases b; cases c) simp_all

lemma flt_le_lt: "a \<noteq> NaN \<Longrightarrow> b \<noteq> NaN \<Longrightarrow> \<not> flt a b \<Longrightarrow> flt a c \<Longrightarrow> flt b c"
  by (cases a; cases b; cases c) simp_all

section \<open>The minimum of the candidates\<close>

lemma min_struct_loop_not_MInf:
  "e s \<noteq> MInf \<Longrightarrow> e (min_struct_loop s xs) \<noteq> MInf"
  by (induction xs arbitrary: s) simp_all

lemma min_struct_loop_not_NaN:
  "e s \<noteq> NaN \<Longrightarrow> e (min_struct_loop s xs) \<noteq> NaN"
  by (induction xs arbitrary: s) (auto dest: flt_not_NaN)

lemma min_struct_loop_mem:
  "min_struct_loop s xs = s \<or> min_struct_loop s xs \<in> set xs"
proof (induction xs arbitrary: s)
  case Nil
  show ?case by simp
next
  case (Cons x xs)
  show ?case
    using Cons.IH [of "if fne (e x) MInf \<and> flt (e x) (e s) then x else s"]
    by (auto split: if_splits)
qed

lemma min_struct_loop_le_start:
  "\<not> flt (e s) (e (min_struct_loop s xs))"
proof (induction xs arbitrary: s)
  case Nil
  show ?case by (cases "e s") simp_all
next
  case (Cons x xs)
  show ?case
    using Cons.IH [of x] Cons.IH [of s] by (auto dest: flt_trans)
qed

lemma min_struct_loop_lower:
  "e s \<noteq> NaN \<Longrightarrow> x \<in> set xs \<Longrightarrow> e x \<noteq> MInf \<Longrightarrow> \<not> flt (e x) (e (min_struct_loop s xs))"
proof (induction xs arbitrary: s)
  case Nil
  then show ?case by simp
next
  case (Cons y ys)
  let ?s' = "if fne (e y) MInf \<and> flt (e y) (e s) then y else s"
  have nan: "e ?s' \<noteq> NaN" using Cons.prems(1) by (auto dest: flt_not_NaN)
  show ?case
  proof (cases "x = y")
    case False
    then show ?thesis using Cons.IH [OF nan] Cons.prems by simp
  next
    case True
    show ?thesis
    proof (cases "flt (e y) (e s)")
      case yes: True
      then show ?thesis using True Cons.prems min_struct_loop_le_start [of y ys] by simp
    next
      case no: False
      show ?thesis
      proof (cases "e y = NaN")
        case True
        then show ?thesis using \<open>x = y\<close> by simp
      next
        case False
        then show ?thesis
          using no \<open>x = y\<close> Cons.prems(1) min_struct_loop_le_start [of s ys]
            flt_total [of "e y" "e s" "e (min_struct_loop s ys)"] by simp
      qed
    qed
  qed
qed

lemma min_struct_loop_keep:
  "\<forall>x\<in>set xs. \<not> (e x \<noteq> MInf \<and> flt (e x) (e s)) \<Longrightarrow> min_struct_loop s xs = s"
  by (induction xs arbitrary: s) auto

lemma min_struct_loop_pick:
  "\<exists>x\<in>set xs. e x \<noteq> MInf \<and> flt (e x) (e s) \<Longrightarrow>
   min_struct_loop s xs \<in> set xs \<and> flt (e (min_struct_loop s xs)) (e s)"
proof (induction xs arbitrary: s)
  case Nil
  then show ?case by simp
next
  case (Cons y ys)
  show ?case
  proof (cases "e y \<noteq> MInf \<and> flt (e y) (e s)")
    case True
    then have ny: "e y \<noteq> NaN" by (auto dest: flt_not_NaN)
    have nr: "e (min_struct_loop y ys) \<noteq> NaN" by (rule min_struct_loop_not_NaN [OF ny])
    have "flt (e (min_struct_loop y ys)) (e s)"
      using flt_le_lt [OF ny nr min_struct_loop_le_start] True by simp
    then show ?thesis
      using True min_struct_loop_mem [of y ys] by auto
  next
    case False
    then show ?thesis using Cons.IH [of s] Cons.prems by auto
  qed
qed

lemma STRUCT_NULL_e [simp]: "e STRUCT_NULL = PInf"
  by (simp add: STRUCT_NULL_def Struct_def)

text \<open>
  Claim C6, as amended. \<open>_min_struct\<close> never returns a struct of energy
  \<open>-inf\<close>, and no argument whose energy is not \<open>-inf\<close> lies strictly below
  the struct it returns. When some argument has an energy that is not \<open>-inf\<close>
  and is below \<open>+inf\<close>, the struct returned is one of the arguments;
  otherwise (every argument at \<open>-inf\<close>, at \<open>+inf\<close> or not a number) it is
  \<open>STRUCT_NULL\<close>, the \<open>+inf\<close> struct, which need not be an argument.
\<close>

theorem min_struct_selects:
  "e (u_min_struct xs) \<noteq> MInf
   \<and> (\<forall>x\<in>set xs. e x \<noteq> MInf \<longrightarrow> \<not> flt (e x) (e (u_min_struct xs)))
   \<and> ((\<exists>x\<in>set xs. e x \<noteq> MInf \<and> flt (e x) PInf) \<longrightarrow>
        u_min_struct xs \<in> set xs \<and> flt (e (u_min_struct xs)) PInf)
   \<and> ((\<forall>x\<in>set xs. e x = MInf \<or> \<not> flt (e x) PInf) \<longrightarrow> u_min_struct xs = STRUCT_NULL)"
proof -
  have a: "e (u_min_struct xs) \<noteq> MInf"
    unfolding u_min_struct_def by (rule min_struct_loop_not_MInf) simp
  have b: "\<forall>x\<in>set xs. e x \<noteq> MInf \<longrightarrow> \<not> flt (e x) (e (u_min_struct xs))"
    unfolding u_min_struct_def using min_struct_loop_lower [of STRUCT_NULL _ xs] by simp
  have c: "(\<exists>x\<in>set xs. e x \<noteq> MInf \<and> flt (e x) PInf) \<longrightarrow>
        u_min_struct xs \<in> set xs \<and> flt (e (u_min_struct xs)) PInf"
    unfolding u_min_struct_def using min_struct_loop_pick [of xs STRUCT_NULL] by simp
  have d: "(\<forall>x\<in>set xs. e x = MInf \<or> \<not> flt (e x) PInf) \<longrightarrow> u_min_struct xs = STRUCT_NULL"
    unfolding u_min_struct_def using min_struct_loop_keep [of xs STRUCT_NULL] by simp
  from a b c d show ?thesis by blast
qed

theorem min_struct_selects_witness:
  "(\<exists>x\<in>set [Struct (Fin 3) ''HAIRPIN:'' [], Struct (Fin (- 2)) ''STACK:'' [(1, 5)], STRUCT_NULL].
      e x \<noteq> MInf \<and> flt (e x) PInf)
   \<and> u_min_struct [Struct (Fin 3) ''HAIRPIN:'' [], Struct (Fin (- 2)) ''STACK:'' [(1, 5)], STRUCT_NULL]
       = Struct (Fin (- 2)) ''STACK:'' [(1, 5)]"
  using min_struct_selects
    [of "[Struct (Fin 3) ''HAIRPIN:'' [], Struct (Fin (- 2)) ''STACK:'' [(1, 5)], STRUCT_NULL]"]
  by (simp add: u_min_struct_def Struct_def STRUCT_NULL_def)

text \<open>
  Claim C6, as stated, fails: the one argument below has an energy that is not
  \<open>-inf\<close> (a hairpin that the energy model prices at \<open>+inf\<close>), and the struct
  returned is \<open>STRUCT_NULL\<close>, which is not among the arguments.
\<close>

theorem min_struct_not_among_arguments:
  "e (Struct PInf ''HAIRPIN:GA/CT'' []) \<noteq> MInf
   \<and> u_min_struct [Struct PInf ''HAIRPIN:GA/CT'' []] = STRUCT_NULL
   \<and> u_min_struct [Struct PInf ''HAIRPIN:GA/CT'' []] \<notin> set [Struct PInf ''HAIRPIN:GA/CT'' []]"
  by (simp add: u_min_struct_def Struct_def STRUCT_NULL_def)

section \<open>Cells of the cache\<close>

lemma py_index_lt: "py_index n i = Some k \<Longrightarrow> k < n"
  by (auto simp: py_index_def split: if_splits)

lemma cache_get_set:
  assumes "cache_get c i j = Inr s"
  shows "\<exists>c'. cache_set c i j v = Inr c' \<and> cache_get c' i j = Inr v"
proof -
  from assms obtain k where k: "py_index (length c) i = Some k"
    by (auto simp: cache_get_def py_get_def split: option.splits)
  with assms obtain m where m: "py_index (length (c ! k)) j = Some m"
    by (auto simp: cache_get_def py_get_def split: option.splits)
  have "k < length c" "m < length (c ! k)"
    using k m by (auto dest: py_index_lt)
  then show ?thesis
    using k m by (simp add: cache_get_def cache_set_def py_get_def py_set_def)
qed

lemmas run_simps =
  u_e_def Let_def cache_get_def cache_set_def py_set_def py_get_def py_index_def compl_ne_def
  sample_env_def sample_energies_def STRUCT_DEFAULT_def STRUCT_NULL_def Struct_def feq_def

section \<open>The unsupported mode\<close>

text \<open>
  Claim C5 says that a mode other than \<open>dna\<close> and \<open>rna\<close> raises a
  ValueError before the fill. What \<open>_cache\<close> does with such a mode: it
  raises before the cache is built, for every sequence and every candidate
  index, but the exception is TypeError, since the \<open>raise\<close> statement is
  given a tuple.
\<close>

theorem unsupported_mode_raises_TypeError:
  "mode \<noteq> ''dna'' \<Longrightarrow> mode \<noteq> ''rna'' \<Longrightarrow>
   u_cache env seq temp S D l_fix n_branches mode = Inl TypeError"
  by (simp add: u_cache_def Let_def)

theorem unsupported_mode_raises_TypeError_witness:
  "''protein'' \<noteq> ''dna'' \<and> ''protein'' \<noteq> ''rna''
   \<and> u_cache sample_env ''GGGAAACCC'' (Fin 37) Map.empty [] 0 4 ''protein'' = Inl TypeError
   \<and> u_cache sample_env ''GGGAAACCC'' (Fin 37) Map.empty [] 0 4 ''protein'' \<noteq> Inl ValueError"
  using unsupported_mode_raises_TypeError
    [of "''protein''" sample_env "''GGGAAACCC''" "Fin 37" Map.empty "[]" 0 4]
  by simp

section \<open>The paths of the per-pair resolver\<close>

text \<open>
  Claim C7. A pair whose cell is still unfilled, whose outer neighbours
  \<open>(i-1, j+1)\<close> are not complementary (a check that is made only when the
  pair touches neither end of the sequence) and whose inner neighbours
  \<open>(i+1, j-1)\<close> are not complementary: \<open>_e\<close> writes \<open>Struct(5000)\<close> into the
  cell and returns it. Neither the energy functions nor \<open>S\<close> nor the set
  \<open>non_branches\<close> take part: the hairpin, single-child and multi-branch
  candidates are not computed.
\<close>

theorem isolated_pair_penalty:
  assumes "cache_get e_cache i j = Inr cur"
    and "struct_eq env cur STRUCT_DEFAULT"
    and "i \<noteq> 0 \<and> j < int (length seq) - 1 \<longrightarrow> compl_ne emap seq (i - 1) (j + 1) = Inr True"
    and "compl_ne emap seq (i + 1) (j - 1) = Inr True"
  shows "\<exists>c'. cache_set e_cache i j (Struct (Fin 5000) [] []) = Inr c'
           \<and> cache_get c' i j = Inr (Struct (Fin 5000) [] [])
           \<and> u_e env seq i j temp e_cache emap S non_branches n_branches
               = Inr (RStruct (Struct (Fin 5000) [] []), c', non_branches)"
proof -
  obtain c' where c': "cache_set e_cache i j (Struct (Fin 5000) [] []) = Inr c'"
    "cache_get c' i j = Inr (Struct (Fin 5000) [] [])"
    using cache_get_set [OF assms(1)] by blast
  have "u_e env seq i j temp e_cache emap S non_branches n_branches
               = Inr (RStruct (Struct (Fin 5000) [] []), c', non_branches)"
    using assms c' by (simp add: u_e_def)
  with c' show ?thesis by blast
qed

theorem isolated_pair_penalty_witness:
  "cache_get (replicate 9 (replicate 9 STRUCT_DEFAULT)) 1 7 = Inr STRUCT_DEFAULT
   \<and> struct_eq sample_env STRUCT_DEFAULT STRUCT_DEFAULT
   \<and> compl_ne sample_energies ''GACCCCCTG'' 0 8 = Inr True
   \<and> compl_ne sample_energies ''GACCCCCTG'' 2 6 = Inr True
   \<and> u_e sample_env ''GACCCCCTG'' 1 7 (Fin 310) (replicate 9 (replicate 9 STRUCT_DEFAULT))
        sample_energies Map.empty {} 4
      = Inr (RStruct (Struct (Fin 5000) [] []),
             (replicate 9 (replicate 9 STRUCT_DEFAULT))
               [1 := (replicate 9 STRUCT_DEFAULT)[7 := Struct (Fin 5000) [] []]], {})"
  using isolated_pair_penalty [of "replicate 9 (replicate 9 STRUCT_DEFAULT)" 1 7 STRUCT_DEFAULT
      sample_env "''GACCCCCTG''" sample_energies "Fin 310" Map.empty "{}" 4]
  by (simp add: cache_get_def cache_set_def py_set_def py_get_def py_index_def
      compl_ne_def sample_env_def sample_energies_def STRUCT_DEFAULT_def Struct_def feq_def)

text \<open>
  Claim C8 says that a pair resolved to a hairpin is always put into
  \<open>non_branches\<close>. What \<open>_e\<close> does with a pair of span four that is not
  isolated: it writes the hairpin into the cell and returns it together with
  the set as it was, so the pair is in the set afterwards only if it was before.
\<close>

theorem small_hairpin_not_added:
  assumes "cache_get e_cache i j = Inr cur"
    and "struct_eq env cur STRUCT_DEFAULT"
    and "(if i \<noteq> 0 \<and> j < int (length seq) - 1
          then compl_ne emap seq (i - 1) (j + 1) else Inr True) = Inr isolated_outer"
    and "compl_ne emap seq (i + 1) (j - 1) = Inr isolated_inner"
    and "\<not> (isolated_outer \<and> isolated_inner)"
    and "j - i = 4"
  shows "\<exists>c'. cache_set e_cache i j
                  (Struct (u_hairpin env seq i j temp emap)
                     (''HAIRPIN:'' @ u_pair env seq i (i + 1) j (j - 1)) []) = Inr c'
           \<and> u_e env seq i j temp e_cache emap S non_branches n_branches
             = Inr (RTuple (Struct (u_hairpin env seq i j temp emap)
                              (''HAIRPIN:'' @ u_pair env seq i (i + 1) j (j - 1)) [])
                      non_branches, c', non_branches)
           \<and> cache_get c' i j
             = Inr (Struct (u_hairpin env seq i j temp emap)
                      (''HAIRPIN:'' @ u_pair env seq i (i + 1) j (j - 1)) [])"
proof -
  let ?e1 = "Struct (u_hairpin env seq i j temp emap)
                              (''HAIRPIN:'' @ u_pair env seq i (i + 1) j (j - 1)) []"
  obtain c' where c': "cache_set e_cache i j ?e1 = Inr c'" "cache_get c' i j = Inr ?e1"
    using cache_get_set [OF assms(1)] by blast
  have ni: "(isolated_outer \<and> isolated_inner) = False" using assms(5) by simp
  have "u_e env seq i j temp e_cache emap S non_branches n_branches
             = Inr (RTuple ?e1 non_branches, c', non_branches)"
    unfolding u_e_def using assms(1-4,6) c' by (simp add: Let_def ni)
  with c' show ?thesis by blast
qed

theorem small_hairpin_not_added_witness:
  "cache_get (replicate 7 (replicate 7 STRUCT_DEFAULT)) 1 5 = Inr STRUCT_DEFAULT
   \<and> compl_ne sample_energies ''GGAAACC'' 0 6 = Inr False
   \<and> compl_ne sample_energies ''GGAAACC'' 2 4 = Inr True
   \<and> u_e sample_env ''GGAAACC'' 1 5 (Fin 310) (replicate 7 (replicate 7 STRUCT_DEFAULT))
        sample_energies Map.empty {} 4
      = Inr (RTuple (Struct (Fin 3) ''HAIRPIN:'' []) {},
             (replicate 7 (replicate 7 STRUCT_DEFAULT))
               [1 := (replicate 7 STRUCT_DEFAULT)[5 := Struct (Fin 3) ''HAIRPIN:'' []]], {})
   \<and> (1, 5) \<notin> ({} :: pair set)"
  using small_hairpin_not_added [of "replicate 7 (replicate 7 STRUCT_DEFAULT)" 1 5 STRUCT_DEFAULT
      sample_env "''GGAAACC''" sample_energies False True "Fin 310" Map.empty "{}" 4]
  by (simp add: cache_get_def cache_set_def py_set_def py_get_def py_index_def
      compl_ne_def sample_env_def sample_energies_def STRUCT_DEFAULT_def Struct_def feq_def)

section \<open>What the resolver writes\<close>









section \<open>The value the fill loop unpacks\<close>

lemma memo_hit_returns_bare_struct:
  "cache_get e_cache i j = Inr cur \<Longrightarrow> \<not> struct_eq env cur STRUCT_DEFAULT \<Longrightarrow>
   u_e env seq i j temp e_cache emap S non_branches n_branches
     = Inr (RStruct cur, e_cache, non_branches)"
  by (simp add: u_e_def)

text \<open>
  Claim C10 says that \<open>_e\<close> hands back a pair on every path. Where it hands
  back a bare \<open>Struct\<close> (the cell already resolved, or the isolated-pair
  penalty), the statement \<open>e, non_branches = _e(...)\<close> of the fill loop
  raises TypeError, and the fill ends there.
\<close>

theorem bare_struct_breaks_fill:
  assumes "u_e env seq (fst bp) (snd bp) temp e_cache emap S non_branches n_branches
             = Inr (RStruct s, c', nb')"
  shows "fill_loop env seq temp emap S n_branches (bp # bps)
           (e_cache, non_branches, min_struct, min_ene) = Inl TypeError"
  using assms by simp

theorem bare_struct_breaks_fill_witness:
  "u_e sample_env ''ACCCCCT'' 0 6 (Fin 310) (replicate 7 (replicate 7 STRUCT_DEFAULT))
       sample_energies [(0, 6) \<mapsto> []] {} 4
     = Inr (RStruct (Struct (Fin 5000) [] []),
            (replicate 7 (replicate 7 STRUCT_DEFAULT))
              [0 := (replicate 7 STRUCT_DEFAULT)[6 := Struct (Fin 5000) [] []]], {})
   \<and> fill_loop sample_env ''ACCCCCT'' (Fin 310) sample_energies [(0, 6) \<mapsto> []] 4 [(0, 6)]
        (replicate 7 (replicate 7 STRUCT_DEFAULT), {}, None, PInf) = Inl TypeError
   \<and> u_cache sample_env ''ACCCCCT'' (Fin 37) [(0, 6) \<mapsto> []] [(6, [(0, 6)])] 0 4 ''dna''
       = Inl TypeError"
proof -
  have h: "u_e sample_env ''ACCCCCT'' (fst (0, 6)) (snd (0, 6)) (Fin 310)
       (replicate 7 (replicate 7 STRUCT_DEFAULT)) sample_energies [(0, 6) \<mapsto> []] {} 4
     = Inr (RStruct (Struct (Fin 5000) [] []),
            (replicate 7 (replicate 7 STRUCT_DEFAULT))
              [0 := (replicate 7 STRUCT_DEFAULT)[6 := Struct (Fin 5000) [] []]], {})"
    by (simp add: run_simps)
  have f: "fill_loop sample_env ''ACCCCCT'' (Fin 310) sample_energies [(0, 6) \<mapsto> []] 4 [(0, 6)]
        (replicate 7 (replicate 7 STRUCT_DEFAULT), {}, None, PInf) = Inl TypeError"
    by (rule bare_struct_breaks_fill [OF h])
  have u: "u_cache sample_env ''ACCCCCT'' (Fin 37) [(0, 6) \<mapsto> []] [(6, [(0, 6)])] 0 4 ''dna''
       = Inl TypeError"
    by (simp add: u_cache_def plan_def upper_def upper_char_def run_simps)
  from h f u show ?thesis by simp
qed

section \<open>The exterior multi-branch resolver\<close>

lemma cache_set_Inr:
  "cache_set c i j v = Inr c1 \<longleftrightarrow>
   (\<exists>k m. py_index (length c) i = Some k \<and> py_index (length (c ! k)) j = Some m
      \<and> k < length c \<and> m < length (c ! k) \<and> c1 = c[k := (c ! k)[m := v]])"
  by (auto simp: cache_set_def py_set_def split: option.splits dest: py_index_lt)

lemma cache_set_set:
  assumes "cache_set c i j v = Inr c1" "cache_set c1 i j w = Inr c2"
  shows "cache_set c i j w = Inr c2"
proof -
  from assms(1) obtain k m where km: "py_index (length c) i = Some k"
    "py_index (length (c ! k)) j = Some m" "k < length c" "m < length (c ! k)"
    "c1 = c[k := (c ! k)[m := v]]"
    unfolding cache_set_Inr by blast
  have "c2 = c[k := (c ! k)[m := w]]"
    using assms(2) km unfolding cache_set_Inr by auto
  then show ?thesis using km unfolding cache_set_Inr by blast
qed

lemma cache_set_get_same:
  assumes "cache_set c i j v = Inr c1"
  shows "cache_get c1 i j = Inr v"
proof -
  from assms obtain k m where km: "py_index (length c) i = Some k"
    "py_index (length (c ! k)) j = Some m" "k < length c" "m < length (c ! k)"
    "c1 = c[k := (c ! k)[m := v]]"
    unfolding cache_set_Inr by blast
  then show ?thesis by (simp add: cache_get_def py_get_def)
qed

lemma cache_set_frame:
  assumes "cache_set c i j v = Inr c1" "0 \<le> i" "0 \<le> j" "0 \<le> a" "0 \<le> b" "(a, b) \<noteq> (i, j)"
  shows "cache_get c1 a b = cache_get c a b"
  using assms
  by (auto simp: cache_set_def cache_get_def py_set_def py_get_def py_index_def nth_list_update
      split: option.splits if_splits)


lemma ext_loop_effect:
  "ext_loop env n combos (c, ms) = Inr (c', ms') \<Longrightarrow> set combos \<subseteq> A \<Longrightarrow>
   (c' = c \<and> ms' = ms)
   \<or> (\<exists>t m cur. cache_set c 0 (int n - 1) t = Inr c' \<and> ms' = Some (0, int n - 1)
         \<and> ms = Some m \<and> cache_get c (fst m) (snd m) = Inr cur \<and> flt (e t) (e cur)
         \<and> (\<exists>combo cc. combo \<in> A \<and> open_ending_branch env cc combo = Some t
               \<and> struct_bool env t))"
proof (induction combos arbitrary: c ms)
  case Nil
  then show ?case by simp
next
  case (Cons combo combos)
  have sub: "set combos \<subseteq> A" and mem: "combo \<in> A" using Cons.prems(2) by auto
  show ?case
  proof (cases "open_ending_branch env c combo")
    case None
    then have "ext_loop env n combos (c, ms) = Inr (c', ms')" using Cons.prems by simp
    from Cons.IH [OF this sub] show ?thesis .
  next
    case (Some t1)
    show ?thesis
    proof (cases "struct_bool env t1")
      case False
      then have "ext_loop env n combos (c, ms) = Inr (c', ms')" using Cons.prems Some by simp
      from Cons.IH [OF this sub] show ?thesis .
    next
      case True
      then obtain m where m: "ms = Some m" using Cons.prems Some by (cases ms) auto
      then obtain cur where cur: "cache_get c (fst m) (snd m) = Inr cur"
        using Cons.prems Some True by (cases "cache_get c (fst m) (snd m)") auto
      show ?thesis
      proof (cases "flt (e t1) (e cur)")
        case False
        then have "ext_loop env n combos (c, ms) = Inr (c', ms')"
          using Cons.prems Some True m cur by simp
        from Cons.IH [OF this sub] show ?thesis .
      next
        case lt: True
        then obtain c1 where c1: "cache_set c 0 (int n - 1) t1 = Inr c1"
          using Cons.prems Some True m cur by (cases "cache_set c 0 (int n - 1) t1") auto
        then have run: "ext_loop env n combos (c1, Some (0, int n - 1)) = Inr (c', ms')"
          using Cons.prems Some True m cur lt by simp
        from Cons.IH [OF run sub] show ?thesis
        proof
          assume "c' = c1 \<and> ms' = Some (0, int n - 1)"
          then show ?thesis using c1 m cur lt Some True mem by blast
        next
          assume "\<exists>t m cur. cache_set c1 0 (int n - 1) t = Inr c' \<and> ms' = Some (0, int n - 1)
            \<and> Some (0, int n - 1) = Some m \<and> cache_get c1 (fst m) (snd m) = Inr cur
            \<and> flt (e t) (e cur)
            \<and> (\<exists>combo cc. combo \<in> A \<and> open_ending_branch env cc combo = Some t
               \<and> struct_bool env t)"
          then obtain t cur1 where t: "cache_set c1 0 (int n - 1) t = Inr c'"
            "ms' = Some (0, int n - 1)" "cache_get c1 0 (int n - 1) = Inr cur1"
            "flt (e t) (e cur1)"
            "\<exists>combo cc. combo \<in> A \<and> open_ending_branch env cc combo = Some t
               \<and> struct_bool env t"
            by auto
          have "cur1 = t1" using cache_set_get_same [OF c1] t(3) by simp
          then have "flt (e t) (e cur)" using t(4) lt flt_trans by blast
          moreover have "cache_set c 0 (int n - 1) t = Inr c'"
            by (rule cache_set_set [OF c1 t(1)])
          ultimately show ?thesis using t(2,5) m cur by blast
        qed
      qed
    qed
  qed
qed

text \<open>
  Claim C4. When the statements of \<open>gmfold\<close> between the fill and the
  traceback finish, then: with a stem requested (\<open>l_fix\<close> not \<open>0\<close>) the cache
  and \<open>min_struct\<close> are as the fill left them; in any case either nothing
  has changed, or the cache differs from the fill's in the cell \<open>(0, n-1)\<close>
  alone, which now holds a struct that \<open>open_ending_branch\<close> returned for
  one of the enumerated combinations, of energy strictly below that of the
  cell \<open>min_struct\<close> pointed to, and \<open>min_struct\<close> is \<open>(0, n-1)\<close>; every
  other cell reads as before.
\<close>

theorem exterior_frame:
  assumes "exterior env n bps l_fix n_branches e_cache min_struct min_ene = Inr (c', ms')"
  shows "(l_fix \<noteq> 0 \<longrightarrow> c' = e_cache \<and> ms' = min_struct)
    \<and> ((c' = e_cache \<and> ms' = min_struct)
       \<or> (\<exists>t m cur. cache_set e_cache 0 (int n - 1) t = Inr c' \<and> ms' = Some (0, int n - 1)
            \<and> min_struct = Some m \<and> cache_get e_cache (fst m) (snd m) = Inr cur
            \<and> flt (e t) (e cur)
            \<and> (\<exists>branches combo cc. neg_branches e_cache (remdups bps) = Inr branches
                  \<and> combo \<in> set (all_combinations env branches None n_branches)
                  \<and> open_ending_branch env cc combo = Some t \<and> struct_bool env t)))
    \<and> (0 < n \<longrightarrow> (\<forall>a b. 0 \<le> a \<and> 0 \<le> b \<and> (a, b) \<noteq> (0, int n - 1) \<longrightarrow>
                      cache_get c' a b = cache_get e_cache a b))"
proof -
  have a: "l_fix \<noteq> 0 \<longrightarrow> c' = e_cache \<and> ms' = min_struct"
    using assms by (auto simp: exterior_def split: sum.splits if_splits)
  have b: "(c' = e_cache \<and> ms' = min_struct)
       \<or> (\<exists>t m cur. cache_set e_cache 0 (int n - 1) t = Inr c' \<and> ms' = Some (0, int n - 1)
            \<and> min_struct = Some m \<and> cache_get e_cache (fst m) (snd m) = Inr cur
            \<and> flt (e t) (e cur)
            \<and> (\<exists>branches combo cc. neg_branches e_cache (remdups bps) = Inr branches
                  \<and> combo \<in> set (all_combinations env branches None n_branches)
                  \<and> open_ending_branch env cc combo = Some t \<and> struct_bool env t))"
  proof (cases "\<exists>branches. neg_branches e_cache (remdups bps) = Inr branches
        \<and> ext_loop env n (all_combinations env branches None n_branches) (e_cache, min_struct)
            = Inr (c', ms')")
    case True
    then obtain branches where br: "neg_branches e_cache (remdups bps) = Inr branches"
      "ext_loop env n (all_combinations env branches None n_branches) (e_cache, min_struct)
            = Inr (c', ms')" by blast
    from ext_loop_effect [OF br(2) subset_refl] br(1) show ?thesis by blast
  next
    case False
    then have "c' = e_cache \<and> ms' = min_struct"
      using assms by (auto simp: exterior_def split: sum.splits if_splits)
    then show ?thesis by simp
  qed
  have c: "0 < n \<longrightarrow> (\<forall>a b. 0 \<le> a \<and> 0 \<le> b \<and> (a, b) \<noteq> (0, int n - 1) \<longrightarrow>
                      cache_get c' a b = cache_get e_cache a b)"
  proof (intro impI allI)
    fix a b :: int
    assume n: "0 < n" and ab: "0 \<le> a \<and> 0 \<le> b \<and> (a, b) \<noteq> (0, int n - 1)"
    from b show "cache_get c' a b = cache_get e_cache a b"
    proof
      assume "c' = e_cache \<and> ms' = min_struct"
      then show ?thesis by simp
    next
      assume "\<exists>t m cur. cache_set e_cache 0 (int n - 1) t = Inr c' \<and> ms' = Some (0, int n - 1)
            \<and> min_struct = Some m \<and> cache_get e_cache (fst m) (snd m) = Inr cur
            \<and> flt (e t) (e cur)
            \<and> (\<exists>branches combo cc. neg_branches e_cache (remdups bps) = Inr branches
                  \<and> combo \<in> set (all_combinations env branches None n_branches)
                  \<and> open_ending_branch env cc combo = Some t \<and> struct_bool env t)"
      then obtain t where "cache_set e_cache 0 (int n - 1) t = Inr c'" by blast
      then show ?thesis using cache_set_frame [of e_cache 0 "int n - 1" t c' a b] n ab by simp
    qed
  qed
  from a b c show ?thesis by blast
qed

theorem exterior_frame_witness:
  "exterior sample_env_open 6 [(1, 5)] 0 4
      ((replicate 6 (replicate 6 STRUCT_DEFAULT))
         [1 := (replicate 6 STRUCT_DEFAULT)[5 := Struct (Fin (- 1)) ''HAIRPIN:'' []]])
      (Some (1, 5)) (Fin (- 1))
    = Inr ((replicate 6 (replicate 6 STRUCT_DEFAULT))
         [1 := (replicate 6 STRUCT_DEFAULT)[5 := Struct (Fin (- 1)) ''HAIRPIN:'' []],
          0 := (replicate 6 STRUCT_DEFAULT)
                 [5 := Struct (Fin (- 5)) ''OPEN_ENDING_MULTI_BRANCH'' [(1, 5)]]],
        Some (0, 5))
   \<and> cache_get ((replicate 6 (replicate 6 STRUCT_DEFAULT))
         [1 := (replicate 6 STRUCT_DEFAULT)[5 := Struct (Fin (- 1)) ''HAIRPIN:'' []],
          0 := (replicate 6 STRUCT_DEFAULT)
                 [5 := Struct (Fin (- 5)) ''OPEN_ENDING_MULTI_BRANCH'' [(1, 5)]]]) 1 5
      = cache_get ((replicate 6 (replicate 6 STRUCT_DEFAULT))
         [1 := (replicate 6 STRUCT_DEFAULT)[5 := Struct (Fin (- 1)) ''HAIRPIN:'' []]]) 1 5"
proof -
  have h: "exterior sample_env_open 6 [(1, 5)] 0 4
      ((replicate 6 (replicate 6 STRUCT_DEFAULT))
         [1 := (replicate 6 STRUCT_DEFAULT)[5 := Struct (Fin (- 1)) ''HAIRPIN:'' []]])
      (Some (1, 5)) (Fin (- 1))
    = Inr ((replicate 6 (replicate 6 STRUCT_DEFAULT))
         [1 := (replicate 6 STRUCT_DEFAULT)[5 := Struct (Fin (- 1)) ''HAIRPIN:'' []],
          0 := (replicate 6 STRUCT_DEFAULT)
                 [5 := Struct (Fin (- 5)) ''OPEN_ENDING_MULTI_BRANCH'' [(1, 5)]]],
        Some (0, 5))"
    by (simp add: exterior_def sample_env_open_def run_simps fgt_def)
  from exterior_frame [OF h] have "\<forall>a b. 0 \<le> a \<and> 0 \<le> b \<and> (a, b) \<noteq> (0, int 6 - 1) \<longrightarrow>
      cache_get ((replicate 6 (replicate 6 STRUCT_DEFAULT))
         [1 := (replicate 6 STRUCT_DEFAULT)[5 := Struct (Fin (- 1)) ''HAIRPIN:'' []],
          0 := (replicate 6 STRUCT_DEFAULT)
                 [5 := Struct (Fin (- 5)) ''OPEN_ENDING_MULTI_BRANCH'' [(1, 5)]]]) a b
      = cache_get ((replicate 6 (replicate 6 STRUCT_DEFAULT))
         [1 := (replicate 6 STRUCT_DEFAULT)[5 := Struct (Fin (- 1)) ''HAIRPIN:'' []]]) a b"
    by simp
  then have "cache_get ((replicate 6 (replicate 6 STRUCT_DEFAULT))
         [1 := (replicate 6 STRUCT_DEFAULT)[5 := Struct (Fin (- 1)) ''HAIRPIN:'' []],
          0 := (replicate 6 STRUCT_DEFAULT)
                 [5 := Struct (Fin (- 5)) ''OPEN_ENDING_MULTI_BRANCH'' [(1, 5)]]]) 1 5
      = cache_get ((replicate 6 (replicate 6 STRUCT_DEFAULT))
         [1 := (replicate 6 STRUCT_DEFAULT)[5 := Struct (Fin (- 1)) ''HAIRPIN:'' []]]) 1 5"
    by simp
  with h show ?thesis by blast
qed

section \<open>Degenerate input\<close>

lemma py_index_0 [simp]: "py_index 0 i = None"
  by (auto simp: py_index_def)

lemma py_get_Nil [simp]: "py_get [] i = Inl IndexError"
  by (simp add: py_get_def)

lemma cache_get_Nil [simp]: "cache_get [] i j = Inl IndexError"
  by (simp add: cache_get_def)

lemma u_e_Nil [simp]: "u_e env seq i j temp [] emap S nb n = Inl IndexError"
  by (simp add: u_e_def)

lemma fixed_write_Nil [simp]: "fixed_write env [] temp emap c bp = Inl IndexError"
  by (simp add: fixed_write_def compl_ne_def)

lemma fill_loop_empty:
  "fill_loop env seq temp emap S n pl ([], nb, ms, me)
     = (if pl = [] then Inr ([], nb, ms, me) else Inl IndexError)"
  by (cases pl) simp_all

lemma fill_loop_fix_empty:
  "fill_loop_fix env [] temp emap S n l_fix pl ([], nb, ms, me, ev)
     = (if pl = [] then Inr ([], nb, ms, me, ev) else Inl IndexError)"
  by (cases pl) simp_all

lemma u_cache_empty:
  "u_cache env [] temp S D l_fix n mode = Inr (c, ms, me) \<Longrightarrow> c = []"
  by (auto simp: u_cache_def Let_def upper_def fill_loop_empty fill_loop_fix_empty
      split: if_splits sum.splits)

lemma gmfold_empty:
  "\<exists>err. gmfold fuel env [] temp S D bps l_fix n_branches mode = Some (Inl err)"
proof (cases "u_cache env [] temp S D l_fix n_branches mode")
  case (Inl err)
  then show ?thesis by (simp add: gmfold_def)
next
  case (Inr r)
  obtain c ms me where r: "r = (c, ms, me)" by (cases r)
  then have "c = []" using Inr u_cache_empty by blast
  then have "exterior env (length ([] :: string)) bps l_fix n_branches c ms me = Inl IndexError"
    by (simp add: exterior_def)
  then show ?thesis using Inr r by (simp add: gmfold_def)
qed

text \<open>
  Claim C2 says that a degenerate sequence folds to the empty list and that
  the dot-bracket encoder turns that list into dots. What the code does: on
  the empty sequence \<open>gmfold\<close> raises, whatever the candidate index and the
  parameters are (the cache has no row \<open>0\<close>); on a sequence too short for
  any candidate, with an empty index, it raises TypeError (\<open>min_struct\<close> is
  still \<open>None\<close> when it is subscripted); and \<open>gm_dot_bracket\<close> raises
  IndexError on the empty list for every sequence.
\<close>

theorem degenerate_input_raises:
  "(\<exists>err. gmfold fuel env [] temp S D bps l_fix n_branches mode = Some (Inl err))
   \<and> gmfold fuel sample_env ''ACG'' (Fin 37) Map.empty [] [] 0 4 ''dna'' = Some (Inl TypeError)
   \<and> gm_dot_bracket seq [] = Inl IndexError"
proof -
  have "gmfold fuel sample_env ''ACG'' (Fin 37) Map.empty [] [] 0 4 ''dna'' = Some (Inl TypeError)"
    by (simp add: gmfold_def u_cache_def plan_def upper_def upper_char_def exterior_def
        run_simps fgt_def)
  moreover have "gm_dot_bracket seq [] = Inl IndexError"
    by (simp add: gm_dot_bracket_def)
  ultimately show ?thesis using gmfold_empty by blast
qed

section \<open>The marginal energies of a traceback\<close>


lemma is_fin_fadd [simp]: "is_fin (fadd a b) = (is_fin a \<and> is_fin b)"
  by (cases a; cases b) simp_all

lemma is_fin_fneg [simp]: "is_fin (fneg a) = is_fin a"
  by (cases a) simp_all

lemma is_fin_fsub [simp]: "is_fin (fsub a b) = (is_fin a \<and> is_fin b)"
  by (simp add: fsub_def)

lemma is_fin_fround1 [simp]: "is_fin (fround1 a) = is_fin a"
  by (cases a) simp_all

lemma is_fin_val: "is_fin a \<Longrightarrow> a = Fin (fin_val a)"
  by (cases a) simp_all




lemma length_te [simp]: "length (u_trackback_energy xs) = length xs"
  by (induction xs rule: u_trackback_energy.induct) simp_all




lemma esum_Nil [simp]: "esum [] = 0"
  by (simp add: esum_def)






lemma with_ij_e [simp]: "e (with_ij s ps) = e s"
  by (simp add: with_ij_def Struct_def)

lemma Struct_sel [simp]: "e (Struct x d ps) = x" "desc (Struct x d ps) = d" "ij (Struct x d ps) = ps"
  by (simp_all add: Struct_def)

lemma te_not_Nil [simp]: "(u_trackback_energy xs = []) = (xs = [])"
  by (induction xs rule: u_trackback_energy.induct) simp_all


lemma esum_Cons [simp]: "esum (x # xs) = fin_val (e x) + esum xs"
  by (simp add: esum_def)










lemma te_last_ij:
  "xs \<noteq> [] \<Longrightarrow> ij (last (u_trackback_energy xs)) = ij (last xs)
     \<and> desc (last (u_trackback_energy xs)) = desc (last xs)"
  by (induction xs rule: u_trackback_energy.induct) simp_all







section \<open>The forced stem in the fill and the traceback\<close>



lemma frame_refl: "frame c c bp"
  by (simp add: frame_def)























lemma upper_length [simp]: "length (upper s) = length s"
  by (simp add: upper_def)






end
